theory Spec2Isabelle
  imports Main "HOL-Library.Finite_Map"
begin

section \<open>AutoGenSubTitle: the orchestration logic of gen\_subs\_EN\_v1.1.py\<close>

text \<open>
  The script drives two external programs (ffmpeg, whisper) and moves files around.
  Its effects are made explicit: a file system (a finite map from paths to nodes), the
  list of observable actions performed so far (commands executed, directories made,
  files renamed or removed, prompts issued, summaries printed) and the lines still
  waiting on standard input. What lies outside the script (the outcome of a
  subprocess, whether a rename or an unlink is refused, whether stdin is a terminal,
  which tools the search path resolves) is a parameter of the run.
\<close>

subsection \<open>Paths (pathlib)\<close>

text \<open>
  A path is the list of its components, the last one being the file name; relative
  paths are taken as resolved against the working directory. The functions below
  follow CPython's pathlib on paths whose last component is non-empty:
  \<^verbatim>\<open>
    suffix:  i = name.rfind('.');  name[i:] if 0 < i < len(name) - 1 else ''
    stem:    i = name.rfind('.');  name[:i] if 0 < i < len(name) - 1 else name
    with_suffix(s): name + s if the path has no suffix, else name[:-len(suffix)] + s
  \<close>
\<close>

type_synonym path = "string list"

fun rfind_from :: "char \<Rightarrow> string \<Rightarrow> nat \<Rightarrow> nat option \<Rightarrow> nat option" where
  "rfind_from c [] i acc = acc"
| "rfind_from c (x # xs) i acc = rfind_from c xs (Suc i) (if x = c then Some i else acc)"

definition rfind :: "char \<Rightarrow> string \<Rightarrow> nat option" where
  "rfind c s = rfind_from c s 0 None"

definition name_of :: "path \<Rightarrow> string" where
  "name_of p = (case rev p of [] \<Rightarrow> [] | n # _ \<Rightarrow> n)"

definition parent_of :: "path \<Rightarrow> path" where
  "parent_of p = butlast p"

definition suffix_str :: "string \<Rightarrow> string" where
  "suffix_str n =
     (case rfind (CHR ''.'') n of
        None \<Rightarrow> []
      | Some i \<Rightarrow> if 0 < i \<and> i < length n - 1 then drop i n else [])"

definition stem_str :: "string \<Rightarrow> string" where
  "stem_str n =
     (case rfind (CHR ''.'') n of
        None \<Rightarrow> n
      | Some i \<Rightarrow> if 0 < i \<and> i < length n - 1 then take i n else n)"

definition suffix_of :: "path \<Rightarrow> string" where
  "suffix_of p = suffix_str (name_of p)"

definition stem_of :: "path \<Rightarrow> string" where
  "stem_of p = stem_str (name_of p)"

definition with_suffix :: "path \<Rightarrow> string \<Rightarrow> path" where
  "with_suffix p s =
     (let n = name_of p; old = suffix_str n
      in parent_of p @ [(if old = [] then n else take (length n - length old) n) @ s])"

text \<open>\<^verbatim>\<open>str(path)\<close>: the components joined by slashes.\<close>

definition str_path :: "path \<Rightarrow> string" where
  "str_path p = concat (map (\<lambda>c. CHR ''/'' # c) p)"

text \<open>
  \<^verbatim>\<open>base / s\<close> for a string \<open>s\<close> typed by the user: the string is cut at its slashes,
  empty and \<open>.\<close> components are dropped, and a string that starts with a slash replaces
  the base.
\<close>

fun split_slash :: "string \<Rightarrow> string \<Rightarrow> string list" where
  "split_slash cur [] = [cur]"
| "split_slash cur (c # cs) =
     (if c = CHR ''/'' then cur # split_slash [] cs else split_slash (cur @ [c]) cs)"

definition components :: "string \<Rightarrow> path" where
  "components s = filter (\<lambda>c. c \<noteq> [] \<and> c \<noteq> ''.'') (split_slash [] s)"

definition joinpath :: "path \<Rightarrow> string \<Rightarrow> path" where
  "joinpath base s =
     (case s of
        [] \<Rightarrow> base
      | c # _ \<Rightarrow> if c = CHR ''/'' then components s else base @ components s)"

subsection \<open>Decimal rendering of a number (\<^verbatim>\<open>f"{i}"\<close>)\<close>

definition digit_char :: "nat \<Rightarrow> char" where
  "digit_char d = ''0123456789'' ! d"

function str_nat :: "nat \<Rightarrow> string" where
  "str_nat n = (if n < 10 then [digit_char n] else str_nat (n div 10) @ [digit_char (n mod 10)])"
  by pat_completeness auto
termination
  by (relation "measure id") auto

declare str_nat.simps [simp del]

subsection \<open>File contents and the file system\<close>

text \<open>
  JSON values, as \<^verbatim>\<open>json.load\<close> returns them (\<open>JNull\<close> is Python's \<^verbatim>\<open>None\<close>; numbers
  are kept as integers). An object is the list of its members in file order; in the
  dictionary Python builds, a later duplicate key wins.
\<close>

datatype json =
    JNull
  | JBool bool
  | JNum int
  | JStr string
  | JArr "json list"
  | JObj "(string \<times> json) list"

text \<open>
  A file's content is kept as what \<^verbatim>\<open>json.load\<close> makes of it: \<open>Doc v\<close> when the bytes
  parse to the value \<open>v\<close>, \<open>Raw s\<close> (the bytes) when parsing raises.
\<close>

datatype content = Raw string | Doc json

datatype node = File content | Dir

type_synonym fsys = "(path, node) fmap"

definition exists_p :: "fsys \<Rightarrow> path \<Rightarrow> bool" where
  "exists_p fs p = (fmlookup fs p \<noteq> None)"

subsection \<open>Python truthiness and \<^verbatim>\<open>or\<close>\<close>

fun truthy :: "json \<Rightarrow> bool" where
  "truthy JNull = False"
| "truthy (JBool b) = b"
| "truthy (JNum n) = (n \<noteq> 0)"
| "truthy (JStr s) = (s \<noteq> [])"
| "truthy (JArr xs) = (xs \<noteq> [])"
| "truthy (JObj kvs) = (kvs \<noteq> [])"

definition py_or :: "json \<Rightarrow> json \<Rightarrow> json" where
  "py_or a b = (if truthy a then a else b)"

text \<open>\<^verbatim>\<open>data.get(k)\<close> on the dictionary of an object: \<^verbatim>\<open>None\<close> when the key is missing.\<close>

definition dict_get :: "(string \<times> json) list \<Rightarrow> string \<Rightarrow> json" where
  "dict_get kvs k = (case map_of (rev kvs) k of None \<Rightarrow> JNull | Some v \<Rightarrow> v)"

subsection \<open>Exceptions\<close>

datatype exn =
    RuntimeError "string list" int
  | EOFError
  | OSError
  | JSONDecodeError
  | AttributeError
  | SystemExit nat

subsection \<open>find\_detected\_language\<close>

text \<open>
  The body of the \<^verbatim>\<open>try\<close> block: open the file, parse it, read the two fields.
  Opening a directory raises, unparsable content raises, and \<^verbatim>\<open>.get\<close> on a value that
  is not a dictionary raises.
\<close>

definition read_language :: "fsys \<Rightarrow> path \<Rightarrow> exn + json" where
  "read_language fs json_path =
     (case fmlookup fs json_path of
        None \<Rightarrow> Inl OSError
      | Some Dir \<Rightarrow> Inl OSError
      | Some (File (Raw _)) \<Rightarrow> Inl JSONDecodeError
      | Some (File (Doc (JObj kvs))) \<Rightarrow>
          Inr (py_or (dict_get kvs ''language'') (py_or (dict_get kvs ''language_detected'') JNull))
      | Some (File (Doc _)) \<Rightarrow> Inl AttributeError)"

text \<open>The result is Python's \<^verbatim>\<open>Optional\<close>: \<open>None\<close> is \<^verbatim>\<open>None\<close>.\<close>

definition find_detected_language :: "fsys \<Rightarrow> path \<Rightarrow> json option" where
  "find_detected_language fs srt_base =
     (let json_path = with_suffix srt_base ''.json''
      in if \<not> exists_p fs json_path then None
         else (case read_language fs json_path of
                 Inl _ \<Rightarrow> None
               | Inr v \<Rightarrow> if v = JNull then None else Some v))"


subsection \<open>The world of a run\<close>

text \<open>
  What the script does to its surroundings, in order. A modification of the file system
  is recorded when it is carried out; a refused one leaves no entry.
\<close>

datatype event =
    Exec "string list"
  | Mkdir path
  | Rename path path
  | Unlink path
  | OpenLog path
  | Prompt string
  | Summary "(string \<times> json) list"

record world =
  files :: fsys
  events :: "event list"
  stdin :: "string list"

text \<open>
  What the script cannot decide: the working directory, whether stdin is a terminal,
  what \<^verbatim>\<open>shutil.which\<close> resolves, what a subprocess returns and does to the files, and
  whether the operating system refuses a rename or an unlink.
\<close>

record env =
  cwd :: path
  isatty :: bool
  which :: "string \<Rightarrow> bool"
  exec :: "string list \<Rightarrow> fsys \<Rightarrow> int \<times> fsys"
  rename_refused :: "fsys \<Rightarrow> path \<Rightarrow> path \<Rightarrow> bool"
  unlink_refused :: "fsys \<Rightarrow> path \<Rightarrow> bool"

definition emit :: "event \<Rightarrow> world \<Rightarrow> world" where
  "emit e w = w\<lparr>events := events w @ [e]\<rparr>"

definition is_modification :: "event \<Rightarrow> bool" where
  "is_modification e =
     (case e of Mkdir _ \<Rightarrow> True | Rename _ _ \<Rightarrow> True | Unlink _ \<Rightarrow> True | OpenLog _ \<Rightarrow> True
      | _ \<Rightarrow> False)"

definition is_exec :: "event \<Rightarrow> bool" where
  "is_exec e = (case e of Exec _ \<Rightarrow> True | _ \<Rightarrow> False)"

definition is_prompt :: "event \<Rightarrow> bool" where
  "is_prompt e = (case e of Prompt _ \<Rightarrow> True | _ \<Rightarrow> False)"

subsection \<open>File operations\<close>

text \<open>
  \<^verbatim>\<open>os.replace\<close> / \<^verbatim>\<open>os.rename\<close>: raises when the source is missing or the system
  refuses; otherwise the entry moves, silently replacing what was at the destination.
  The boolean is \<open>True\<close> when no exception was raised.
\<close>

definition os_rename :: "env \<Rightarrow> path \<Rightarrow> path \<Rightarrow> world \<Rightarrow> bool \<times> world" where
  "os_rename en src dst w =
     (case fmlookup (files w) src of
        None \<Rightarrow> (False, w)
      | Some n \<Rightarrow>
          if rename_refused en (files w) src dst then (False, w)
          else if src = dst then (True, w)
          else (True, emit (Rename src dst) (w\<lparr>files := fmdrop src (fmupd dst n (files w))\<rparr>)))"

text \<open>
  \<^verbatim>\<open>shutil.move(src, dst)\<close>: when \<open>dst\<close> is a directory the file goes inside it, and
  an entry of that name already there raises; otherwise it is a rename.
\<close>

definition shutil_move :: "env \<Rightarrow> path \<Rightarrow> path \<Rightarrow> world \<Rightarrow> bool \<times> world" where
  "shutil_move en src dst w =
     (if fmlookup (files w) dst = Some Dir then
        (let real_dst = dst @ [name_of src]
         in if exists_p (files w) real_dst then (False, w) else os_rename en src real_dst w)
      else os_rename en src dst w)"

definition unlink :: "env \<Rightarrow> path \<Rightarrow> world \<Rightarrow> bool \<times> world" where
  "unlink en p w =
     (if \<not> exists_p (files w) p \<or> unlink_refused en (files w) p then (False, w)
      else (True, emit (Unlink p) (w\<lparr>files := fmdrop p (files w)\<rparr>)))"

text \<open>
  \<^verbatim>\<open>mkdir(parents=True, exist_ok=True)\<close>, over the prefixes of the path from the
  shortest: a directory already there is kept, a file in the way raises, a missing
  one is created.
\<close>

fun mkdir_each :: "path list \<Rightarrow> world \<Rightarrow> (exn + unit) \<times> world" where
  "mkdir_each [] w = (Inr (), w)"
| "mkdir_each (p # ps) w =
     (case fmlookup (files w) p of
        Some Dir \<Rightarrow> mkdir_each ps w
      | Some (File _) \<Rightarrow> (Inl OSError, w)
      | None \<Rightarrow> mkdir_each ps (emit (Mkdir p) (w\<lparr>files := fmupd p Dir (files w)\<rparr>)))"

definition mkdir_parents :: "path \<Rightarrow> world \<Rightarrow> (exn + unit) \<times> world" where
  "mkdir_parents p w = mkdir_each (map (\<lambda>n. take n p) [1..<Suc (length p)]) w"

subsection \<open>The external tools\<close>

definition run_cmd_streamed :: "env \<Rightarrow> string list \<Rightarrow> world \<Rightarrow> (exn + unit) \<times> world" where
  "run_cmd_streamed en cmd w =
     (case exec en cmd (files w) of
        (returncode, fs') \<Rightarrow>
          (let w' = emit (Exec cmd) (w\<lparr>files := fs'\<rparr>)
           in if returncode \<noteq> 0 then (Inl (RuntimeError cmd returncode), w') else (Inr (), w')))"

definition ffmpeg_cmd :: "path \<Rightarrow> path \<Rightarrow> string list" where
  "ffmpeg_cmd video_path wav_path =
     [''ffmpeg'', ''-hide_banner'', ''-loglevel'', ''error'',
      ''-i'', str_path video_path,
      ''-ar'', ''16000'', ''-ac'', ''1'',
      ''-c:a'', ''pcm_s16le'',
      str_path wav_path]"

definition extract_audio :: "env \<Rightarrow> path \<Rightarrow> path \<Rightarrow> world \<Rightarrow> (exn + unit) \<times> world" where
  "extract_audio en video_path wav_path w = run_cmd_streamed en (ffmpeg_cmd video_path wav_path) w"

definition whisper_cmd :: "path \<Rightarrow> string \<Rightarrow> string option \<Rightarrow> bool \<Rightarrow> string list" where
  "whisper_cmd wav_path model language translate =
     (let task = (if translate then ''translate'' else ''transcribe'')
      in [''whisper'', str_path wav_path, ''--model'', model, ''--task'', task]
         @ (case language of
              None \<Rightarrow> []
            | Some l \<Rightarrow> if l \<noteq> [] then [''--language'', l] else []))"

definition run_whisper ::
  "env \<Rightarrow> path \<Rightarrow> string \<Rightarrow> string option \<Rightarrow> bool \<Rightarrow> world \<Rightarrow> (exn + unit) \<times> world" where
  "run_whisper en wav_path model language translate w =
     run_cmd_streamed en (whisper_cmd wav_path model language translate) w"

definition check_tools :: "env \<Rightarrow> bool \<times> bool" where
  "check_tools en = (which en ''ffmpeg'', which en ''whisper'')"

subsection \<open>Relocating the outputs and the video\<close>

definition WHISPER_EXTS :: "string list" where
  "WHISPER_EXTS = [''.srt'', ''.json'', ''.tsv'', ''.txt'', ''.vtt'']"

text \<open>One round of the loop of \<^verbatim>\<open>move_whisper_outputs\<close>; a refused move is only logged.\<close>

definition move_output :: "env \<Rightarrow> string \<Rightarrow> path \<Rightarrow> world \<Rightarrow> string \<Rightarrow> world" where
  "move_output en stem target_dir w ext =
     (let src = cwd en @ [stem @ ext]
      in if exists_p (files w) src
         then snd (os_rename en src (target_dir @ [name_of src]) w)
         else w)"

definition move_whisper_outputs :: "env \<Rightarrow> path \<Rightarrow> path \<Rightarrow> world \<Rightarrow> world" where
  "move_whisper_outputs en video_base target_dir w =
     foldl (move_output en (stem_of video_base) target_dir) w WHISPER_EXTS"

text \<open>The \<^verbatim>\<open>while True\<close> loop of \<^verbatim>\<open>move_video_into_dir\<close>, from the counter \<open>i\<close>.\<close>

definition candidate :: "path \<Rightarrow> string \<Rightarrow> string \<Rightarrow> nat \<Rightarrow> path" where
  "candidate target_dir base suffix i = target_dir @ [base @ ''_'' @ str_nat i @ suffix]"

function free_candidate :: "fsys \<Rightarrow> path \<Rightarrow> string \<Rightarrow> string \<Rightarrow> nat \<Rightarrow> nat" where
  "free_candidate fs target_dir base suffix i =
     (if \<not> exists_p fs (candidate target_dir base suffix i) then i
      else free_candidate fs target_dir base suffix (i + 1))"
  by pat_completeness auto

text \<open>The destination \<^verbatim>\<open>move_video_into_dir\<close> settles on before it moves anything.\<close>

definition chosen_dest :: "fsys \<Rightarrow> path \<Rightarrow> path \<Rightarrow> path" where
  "chosen_dest fs v target_dir =
     (let dest = target_dir @ [name_of v]
      in if exists_p fs dest
         then candidate target_dir (stem_of v) (suffix_of v)
                (free_candidate fs target_dir (stem_of v) (suffix_of v) 1)
         else dest)"

definition move_video_into_dir :: "env \<Rightarrow> path \<Rightarrow> path \<Rightarrow> world \<Rightarrow> path \<times> world" where
  "move_video_into_dir en v target_dir w =
     (let dest = chosen_dest (files w) v target_dir
      in case shutil_move en v dest w of
           (True, w') \<Rightarrow> (dest, w')
         | (False, w') \<Rightarrow> (v, w'))"

subsection \<open>process\_video\<close>

text \<open>The \<^verbatim>\<open>duration\<close> field is wall-clock time and is left out.\<close>

record RunResult =
  video :: path
  wav :: path
  srt :: path
  detected_language :: "json option"
  whisper_succeeded :: bool

text \<open>
  \<^verbatim>\<open>if clean_wav and wav.exists(): try: wav.unlink() except Exception: (warning)\<close>
\<close>

definition remove_wav :: "env \<Rightarrow> bool \<Rightarrow> path \<Rightarrow> world \<Rightarrow> world" where
  "remove_wav en clean_wav wav_path w =
     (if clean_wav \<and> exists_p (files w) wav_path then snd (unlink en wav_path w) else w)"

definition process_video ::
  "env \<Rightarrow> path \<Rightarrow> string \<Rightarrow> string option \<Rightarrow> bool \<Rightarrow> bool \<Rightarrow> bool \<Rightarrow> bool \<Rightarrow> path \<Rightarrow> world
     \<Rightarrow> (exn + RunResult) \<times> world" where
  "process_video en v model language translate_to_en clean_wav overwrite skip_if_exists out_dir w =
     (let base = with_suffix v [];
          wav_path = out_dir @ [stem_of v @ ''.wav''];
          srt_path = out_dir @ [stem_of v @ ''.srt'']
      in if exists_p (files w) srt_path \<and> skip_if_exists then
           (Inr \<lparr>video = v, wav = wav_path, srt = srt_path,
                 detected_language = find_detected_language (files w) (out_dir @ [stem_of v]),
                 whisper_succeeded = True\<rparr>, w)
         else if exists_p (files w) srt_path \<and> \<not> overwrite then
           (Inr \<lparr>video = v, wav = wav_path, srt = srt_path,
                 detected_language = find_detected_language (files w) (out_dir @ [stem_of v]),
                 whisper_succeeded = True\<rparr>, w)
         else
           (case extract_audio en v wav_path w of
              (Inl e, w1) \<Rightarrow> (Inl e, w1)
            | (Inr _, w1) \<Rightarrow>
                (case run_whisper en wav_path model language translate_to_en w1 of
                   (r, w2) \<Rightarrow>
                     (let whisper_ok = (case r of Inl _ \<Rightarrow> False | Inr _ \<Rightarrow> True);
                          w3 = move_whisper_outputs en base out_dir w2;
                          w4 = remove_wav en clean_wav wav_path w3
                      in (Inr \<lparr>video = v, wav = wav_path, srt = srt_path,
                               detected_language =
                                 find_detected_language (files w4) (out_dir @ [stem_of v]),
                               whisper_succeeded = whisper_ok\<rparr>, w4)))))"

subsection \<open>Prompts\<close>

text \<open>
  \<^verbatim>\<open>input(prompt)\<close> shows the prompt and takes the next line of stdin; at the end of the
  input it raises \<^verbatim>\<open>EOFError\<close>.
\<close>

definition input :: "string \<Rightarrow> world \<Rightarrow> (exn + string) \<times> world" where
  "input prompt w =
     (case stdin w of
        [] \<Rightarrow> (Inl EOFError, emit (Prompt prompt) w)
      | l # ls \<Rightarrow> (Inr l, emit (Prompt prompt) (w\<lparr>stdin := ls\<rparr>)))"

definition is_space :: "char \<Rightarrow> bool" where
  "is_space c = (let n = (of_char c :: nat) in (9 \<le> n \<and> n \<le> 13) \<or> (28 \<le> n \<and> n \<le> 32))"

definition strip :: "string \<Rightarrow> string" where
  "strip s = rev (dropWhile is_space (rev (dropWhile is_space s)))"

definition lower :: "string \<Rightarrow> string" where
  "lower s = map (\<lambda>c. let n = (of_char c :: nat)
                      in if 65 \<le> n \<and> n \<le> 90 then char_of (n + 32) else c) s"

definition is_digit :: "char \<Rightarrow> bool" where
  "is_digit c = (let n = (of_char c :: nat) in 48 \<le> n \<and> n \<le> 57)"

definition isdigit :: "string \<Rightarrow> bool" where
  "isdigit s = (s \<noteq> [] \<and> list_all is_digit s)"

definition int_of_str :: "string \<Rightarrow> int" where
  "int_of_str s = foldl (\<lambda>a c. 10 * a + (int (of_char c) - 48)) 0 s"

definition MODELS :: "string list" where
  "MODELS = [''tiny'', ''base'', ''small'', ''medium'', ''large'']"

text \<open>
  The two branches of \<^verbatim>\<open>ask_choice\<close> (with and without rich) differ in how the question
  is laid out only; the recorded prompt is the question.
\<close>

function ask_choice :: "string \<Rightarrow> string list \<Rightarrow> string \<Rightarrow> world \<Rightarrow> (exn + string) \<times> world" where
  "ask_choice prompt options dflt w =
     (case input prompt w of
        (Inl e, w') \<Rightarrow> (Inl e, w')
      | (Inr line, w') \<Rightarrow>
          (let resp = strip line
           in if resp = [] then (Inr dflt, w')
              else if isdigit resp then
                (let idx = int_of_str resp - 1
                 in if 0 \<le> idx \<and> idx < int (length options) then (Inr (options ! nat idx), w')
                    else ask_choice prompt options dflt w')
              else if resp \<in> set options then (Inr resp, w')
              else ask_choice prompt options dflt w'))"
  by pat_completeness auto
termination
  by (relation "measure (\<lambda>(prompt, options, dflt, w). length (stdin w))")
     (auto simp: input_def emit_def split: list.splits)

function yes_no :: "string \<Rightarrow> bool \<Rightarrow> world \<Rightarrow> (exn + bool) \<times> world" where
  "yes_no prompt dflt w =
     (case input prompt w of
        (Inl e, w') \<Rightarrow> (Inl e, w')
      | (Inr line, w') \<Rightarrow>
          (let resp = lower (strip line)
           in if resp = [] then (Inr dflt, w')
              else if resp \<in> set [''y'', ''yes'', ''o'', ''oui''] then (Inr True, w')
              else if resp \<in> set [''n'', ''no''] then (Inr False, w')
              else yes_no prompt dflt w'))"
  by pat_completeness auto
termination
  by (relation "measure (\<lambda>(prompt, dflt, w). length (stdin w))")
     (auto simp: input_def emit_def split: list.splits)

declare ask_choice.simps [simp del] yes_no.simps [simp del]

subsection \<open>main\<close>

text \<open>The parsed command line (\<^verbatim>\<open>argparse\<close>): an option not given is \<open>None\<close> or \<open>False\<close>.\<close>

record args =
  arg_video :: path
  arg_model :: "string option"
  arg_language :: "string option"
  arg_translate_to_en :: bool
  arg_no_clean :: bool
  arg_no_overwrite :: bool
  arg_no_skip :: bool
  arg_log :: "path option"

record config =
  cfg_model :: string
  cfg_language :: "string option"
  cfg_out_dir :: path
  cfg_clean_wav :: bool
  cfg_overwrite :: bool
  cfg_skip_if_exists :: bool
  cfg_translate_to_en :: bool

text \<open>Sequencing: an exception ends the sequence and keeps the effects made so far.\<close>

definition and_then ::
  "(world \<Rightarrow> (exn + 'a) \<times> world) \<Rightarrow> ('a \<Rightarrow> world \<Rightarrow> (exn + 'b) \<times> world) \<Rightarrow> world
     \<Rightarrow> (exn + 'b) \<times> world" where
  "and_then m f w = (case m w of (Inl e, w') \<Rightarrow> (Inl e, w') | (Inr a, w') \<Rightarrow> f a w')"

definition ret :: "'a \<Rightarrow> world \<Rightarrow> (exn + 'a) \<times> world" where
  "ret a w = (Inr a, w)"

definition throw :: "exn \<Rightarrow> world \<Rightarrow> (exn + 'a) \<times> world" where
  "throw e w = (Inl e, w)"

text \<open>
  \<^verbatim>\<open>setup_logger\<close>: with \<^verbatim>\<open>--log\<close> the file handler opens the log file for appending,
  which creates it when it is missing. The lines appended later are not recorded one
  by one.
\<close>

definition setup_logger :: "path option \<Rightarrow> world \<Rightarrow> world" where
  "setup_logger log_path w =
     (case log_path of
        None \<Rightarrow> w
      | Some p \<Rightarrow>
          emit (OpenLog p)
            (w\<lparr>files := (if exists_p (files w) p then files w
                          else fmupd p (File (Raw [])) (files w))\<rparr>))"

text \<open>
  The \<^verbatim>\<open>try\<close> block of \<^verbatim>\<open>main\<close> up to and including the tool check (lines 279 to 350):
  the video must exist, the settings are gathered, the output folder is made, the
  user confirms, the tools are looked up. The folder prompt is recorded without the
  default name it displays.
\<close>

definition prepare :: "env \<Rightarrow> args \<Rightarrow> world \<Rightarrow> (exn + config) \<times> world" where
  "prepare en a =
     and_then (\<lambda>w. if \<not> exists_p (files w) (arg_video a) then throw (SystemExit 1) w
                    else ret () w) (\<lambda>_.
     and_then (case arg_model a of
                 Some m \<Rightarrow> if m \<noteq> [] then ret m
                           else ask_choice ''Choose Whisper model size:'' MODELS ''small''
               | None \<Rightarrow> ask_choice ''Choose Whisper model size:'' MODELS ''small'') (\<lambda>model.
     and_then (case arg_language a of
                 Some l \<Rightarrow> ret (Some l)
               | None \<Rightarrow>
                   and_then (input ''Source audio language (e.g., en, fr, es) [auto-detect]: '')
                     (\<lambda>line. let lang_input = strip line
                              in ret (if lang_input \<noteq> [] then Some lang_input else None)))
       (\<lambda>language.
     and_then (if \<not> isatty en then ret (cwd en @ [stem_of (arg_video a)])
               else and_then (input ''Output folder name: '')
                      (\<lambda>line. let name = (if strip line \<noteq> [] then strip line
                                           else stem_of (arg_video a))
                               in ret (joinpath (cwd en) name))) (\<lambda>out_dir.
     and_then (mkdir_parents out_dir) (\<lambda>_.
     and_then (if isatty en then yes_no ''Clean .wav after run?'' True
               else ret (\<not> arg_no_clean a)) (\<lambda>clean_wav.
     and_then (if arg_translate_to_en a then ret True
               else if isatty en then yes_no ''Translate to English?'' False
               else ret False) (\<lambda>translate_to_en.
     and_then (yes_no ''Start processing?'' True) (\<lambda>go.
       if \<not> go then throw (SystemExit 0)
       else (case check_tools en of
               (ffmpeg_ok, whisper_ok) \<Rightarrow>
                 if \<not> (ffmpeg_ok \<and> whisper_ok) then throw (SystemExit 1)
                 else ret \<lparr>cfg_model = model, cfg_language = language, cfg_out_dir = out_dir,
                           cfg_clean_wav = clean_wav, cfg_overwrite = \<not> arg_no_overwrite a,
                           cfg_skip_if_exists = \<not> arg_no_skip a,
                           cfg_translate_to_en = translate_to_en\<rparr>)))))))))"

text \<open>
  What the closing table shows. The rich table and the plain log lines carry the same
  fields; the total duration is wall-clock time and is left out. Printing and logging
  are taken not to fail.
\<close>

definition language_or_unknown :: "json option \<Rightarrow> json" where
  "language_or_unknown d =
     (case d of None \<Rightarrow> JStr ''Unknown'' | Some v \<Rightarrow> py_or v (JStr ''Unknown''))"

definition summary_rows :: "fsys \<Rightarrow> RunResult \<Rightarrow> (string \<times> json) list" where
  "summary_rows fs r =
     [(''.srt'', JStr (if exists_p fs (srt r) then str_path (srt r) else ''Missing'')),
      (''Detected language'', language_or_unknown (detected_language r)),
      (''Whisper succeeded'', JBool (whisper_succeeded r)),
      (''Video location'', JStr (str_path (video r)))]"

text \<open>
  The rest of the \<^verbatim>\<open>try\<close> block (lines 352 to 411): the pipeline, the move of the
  video into the output folder, the summary.
\<close>

definition run_and_report :: "env \<Rightarrow> path \<Rightarrow> config \<Rightarrow> world \<Rightarrow> (exn + unit) \<times> world" where
  "run_and_report en v c =
     and_then (process_video en v (cfg_model c) (cfg_language c) (cfg_translate_to_en c)
                 (cfg_clean_wav c) (cfg_overwrite c) (cfg_skip_if_exists c) (cfg_out_dir c))
       (\<lambda>result w.
          (case move_video_into_dir en v (cfg_out_dir c) w of
             (new_video_path, w') \<Rightarrow>
               (let result' = (if new_video_path \<noteq> v then result\<lparr>video := new_video_path\<rparr>
                               else result)
                in ret () (emit (Summary (summary_rows (files w') result')) w'))))"

text \<open>
  The exit status: \<^verbatim>\<open>sys.exit(n)\<close> passes through \<^verbatim>\<open>except Exception\<close>; any other
  exception is logged and becomes status 1; a normal return is status 0.
\<close>

definition exit_code :: "exn + unit \<Rightarrow> nat" where
  "exit_code r = (case r of Inr _ \<Rightarrow> 0 | Inl (SystemExit n) \<Rightarrow> n | Inl _ \<Rightarrow> 1)"

definition main :: "env \<Rightarrow> args \<Rightarrow> world \<Rightarrow> nat \<times> world" where
  "main en a w0 =
     (case and_then (prepare en a) (run_and_report en (arg_video a)) (setup_logger (arg_log a) w0) of
        (r, w) \<Rightarrow> (exit_code r, w))"

subsection \<open>Sample runs\<close>

text \<open>
  Concrete surroundings on which the theorems below are exercised: the tools are on the
  search path, stdin is not a terminal, every subprocess exits with status 1 and
  touches nothing, and no rename or unlink is refused.
\<close>

definition demo_env :: env where
  "demo_env = \<lparr>cwd = [''work''], isatty = False, which = (\<lambda>t. True),
     exec = (\<lambda>cmd fs. (1, fs)), rename_refused = (\<lambda>fs s d. False),
     unlink_refused = (\<lambda>fs p. False)\<rparr>"

definition crowded_world :: world where
  "crowded_world = \<lparr>files =
      (fmupd [''work'', ''demo'', ''demo_1.mp4''] (File (Raw ''older''))
      (fmupd [''work'', ''demo'', ''demo.mp4''] (File (Raw ''old''))
      (fmupd [''work'', ''demo''] Dir
      (fmupd [''work'', ''demo.mp4''] (File (Raw ''new''))
      (fmupd [''work''] Dir fmempty))))),
     events = [], stdin = []\<rparr>"

text \<open>A finished earlier run: the subtitle file and its JSON companion are in the folder.\<close>

definition rerun_world :: world where
  "rerun_world = \<lparr>files =
      (fmupd [''work'', ''demo'', ''demo.json''] (File (Doc (JObj [(''language'', JStr ''fr'')])))
      (fmupd [''work'', ''demo'', ''demo.srt''] (File (Raw ''1''))
      (fmupd [''work'', ''demo''] Dir
      (fmupd [''work'', ''demo.mp4''] (File (Raw ''v''))
      (fmupd [''work''] Dir fmempty))))),
     events = [], stdin = []\<rparr>"

text \<open>A first run: only the video and an empty output folder.\<close>

definition fresh_world :: world where
  "fresh_world = \<lparr>files =
      (fmupd [''work'', ''demo''] Dir
      (fmupd [''work'', ''demo.mp4''] (File (Raw ''v''))
      (fmupd [''work''] Dir fmempty))),
     events = [], stdin = []\<rparr>"

text \<open>
  Tools that work on the demo video: ffmpeg writes the audio file, whisper writes a
  subtitle file and its JSON companion into the working directory; both exit with 0.
\<close>

definition studio_env :: env where
  "studio_env = \<lparr>cwd = [''work''], isatty = False, which = (\<lambda>t. True),
     exec = (\<lambda>cmd fs. case cmd of
                         [] \<Rightarrow> (1, fs)
                       | c # _ \<Rightarrow>
                           if c = ''ffmpeg''
                           then (0, fmupd [''work'', ''demo'', ''demo.wav''] (File (Raw ''pcm'')) fs)
                           else (0, fmupd [''work'', ''demo.json'']
                                      (File (Doc (JObj [(''language'', JStr ''fr'')])))
                                   (fmupd [''work'', ''demo.srt''] (File (Raw ''1'')) fs))),
     rename_refused = (\<lambda>fs s d. False),
     unlink_refused = (\<lambda>fs p. False)\<rparr>"

text \<open>The same tools, on a system that refuses to delete files.\<close>

definition locked_env :: env where
  "locked_env = studio_env\<lparr>unlink_refused := (\<lambda>fs p. True)\<rparr>"


text \<open>A video whose stem contains a dot, after an earlier run.\<close>

definition dotted_world :: world where
  "dotted_world = \<lparr>files =
       fmupd [''work'', ''my.video'', ''my.video.json'']
         (File (Doc (JObj [(''language'', JStr ''fr'')])))
      (fmupd [''work'', ''my.video'', ''my.video.srt''] (File (Raw ''1''))
      (fmupd [''work'', ''my.video''] Dir
      (fmupd [''work'', ''my.video.mp4''] (File (Raw ''v''))
      (fmupd [''work''] Dir fmempty)))),
     events = [], stdin = []\<rparr>"


text \<open>Command lines: with the model and the language given, and with neither.\<close>

definition demo_args :: args where
  "demo_args = \<lparr>arg_video = [''work'', ''demo.mp4''], arg_model = Some ''small'',
     arg_language = Some ''fr'', arg_translate_to_en = False, arg_no_clean = False,
     arg_no_overwrite = False, arg_no_skip = False, arg_log = None\<rparr>"

definition bare_args :: args where
  "bare_args = \<lparr>arg_video = [''work'', ''demo.mp4''], arg_model = None,
     arg_language = None, arg_translate_to_en = False, arg_no_clean = False,
     arg_no_overwrite = False, arg_no_skip = False, arg_log = None\<rparr>"

text \<open>Before the first run: the video only. One empty line waits on stdin.\<close>

definition ready_world :: world where
  "ready_world = \<lparr>files =
      (fmupd [''work'', ''demo.mp4''] (File (Raw ''v''))
      (fmupd [''work''] Dir fmempty)),
     events = [], stdin = [[]]\<rparr>"

text \<open>Nothing waits on stdin (a closed or empty standard input).\<close>

definition idle_world :: world where
  "idle_world = ready_world\<lparr>stdin := []\<rparr>"

text \<open>The answers are piped in: a model, a language, an empty line.\<close>

definition piped_world :: world where
  "piped_world = ready_world\<lparr>stdin := [''tiny'', ''de'', []]\<rparr>"

text \<open>ffmpeg is not on the search path.\<close>

definition no_ffmpeg_env :: env where
  "no_ffmpeg_env = studio_env\<lparr>which := (\<lambda>t. t \<noteq> ''ffmpeg'')\<rparr>"



section \<open>The loop of move\_video\_into\_dir ends\<close>

text \<open>
  Different counters give different candidate names, and a directory holds finitely
  many entries, so the search for a free name stops.
\<close>


lemma str_nat_nonempty: "str_nat n \<noteq> []"
  by (subst str_nat.simps) simp

lemma digit_char_inj:
  assumes "a < 10" "b < 10" "digit_char a = digit_char b"
  shows "a = b"
proof -
  have d: "distinct ''0123456789''" by simp
  have "a < length ''0123456789''" "b < length ''0123456789''" using assms by simp_all
  with d assms(3) show ?thesis
    unfolding digit_char_def by (simp only: nth_eq_iff_index_eq)
qed

lemma str_nat_inj: "str_nat n = str_nat m \<Longrightarrow> n = m"
proof (induction n arbitrary: m rule: str_nat.induct)
  case (1 n)
  show ?case
  proof (cases "n < 10")
    case True
    then have n: "str_nat n = [digit_char n]" by (subst str_nat.simps) simp
    show ?thesis
    proof (cases "m < 10")
      case True
      then have "str_nat m = [digit_char m]" by (subst str_nat.simps) simp
      with n "1.prems" have "digit_char n = digit_char m" by simp
      with \<open>n < 10\<close> \<open>m < 10\<close> show ?thesis by (rule digit_char_inj)
    next
      case False
      then have "str_nat m = str_nat (m div 10) @ [digit_char (m mod 10)]"
        by (subst str_nat.simps) simp
      with n "1.prems" have "str_nat (m div 10) = []" by simp
      then show ?thesis by (simp add: str_nat_nonempty)
    qed
  next
    case False
    then have n: "str_nat n = str_nat (n div 10) @ [digit_char (n mod 10)]"
      by (subst str_nat.simps) simp
    show ?thesis
    proof (cases "m < 10")
      case True
      then have "str_nat m = [digit_char m]" by (subst str_nat.simps) simp
      with n "1.prems" have "str_nat (n div 10) = []" by simp
      then show ?thesis by (simp add: str_nat_nonempty)
    next
      case mf: False
      then have "str_nat m = str_nat (m div 10) @ [digit_char (m mod 10)]"
        by (subst str_nat.simps) simp
      with n "1.prems" have e: "str_nat (n div 10) = str_nat (m div 10)"
        and d: "digit_char (n mod 10) = digit_char (m mod 10)" by simp_all
      from "1.IH" [OF False e] have q: "n div 10 = m div 10" .
      have r: "n mod 10 = m mod 10" by (rule digit_char_inj [OF _ _ d]) simp_all
      from q r show ?thesis by (metis div_mult_mod_eq)
    qed
  qed
qed

lemma candidate_inj: "candidate t b s i = candidate t b s j \<Longrightarrow> i = j"
  by (simp add: candidate_def str_nat_inj)

lemma taken_finite: "finite {j. i \<le> j \<and> exists_p fs (candidate t b s j)}"
proof -
  have "{j. i \<le> j \<and> exists_p fs (candidate t b s j)} \<subseteq> candidate t b s -` fmdom' fs"
    by (auto simp: exists_p_def fmlookup_dom'_iff)
  moreover have "finite (candidate t b s -` fmdom' fs)"
    by (rule finite_vimageI) (auto simp: inj_on_def dest: candidate_inj)
  ultimately show ?thesis by (rule finite_subset)
qed

termination free_candidate
proof (relation "measure (\<lambda>(fs, t, b, s, i). card {j. i \<le> j \<and> exists_p fs (candidate t b s j)})")
  show "wf (measure (\<lambda>(fs, t, b, s, i). card {j. i \<le> j \<and> exists_p fs (candidate t b s j)}))"
    by simp
next
  fix fs :: fsys and target_dir base suffix i
  assume "\<not> \<not> exists_p fs (candidate target_dir base suffix i)"
  then have ex: "exists_p fs (candidate target_dir base suffix i)" by simp
  have "i \<in> {j. i \<le> j \<and> exists_p fs (candidate target_dir base suffix j)}"
    using ex by simp
  moreover have "i \<notin> {j. i + 1 \<le> j \<and> exists_p fs (candidate target_dir base suffix j)}"
    by simp
  moreover have "{j. i + 1 \<le> j \<and> exists_p fs (candidate target_dir base suffix j)}
          \<subseteq> {j. i \<le> j \<and> exists_p fs (candidate target_dir base suffix j)}"
    by auto
  ultimately have "{j. i + 1 \<le> j \<and> exists_p fs (candidate target_dir base suffix j)}
          \<subset> {j. i \<le> j \<and> exists_p fs (candidate target_dir base suffix j)}"
    by blast
  then have "card {j. i + 1 \<le> j \<and> exists_p fs (candidate target_dir base suffix j)}
          < card {j. i \<le> j \<and> exists_p fs (candidate target_dir base suffix j)}"
    by (rule psubset_card_mono [OF taken_finite])
  then show "((fs, target_dir, base, suffix, i + 1), (fs, target_dir, base, suffix, i))
      \<in> measure (\<lambda>(fs, t, b, s, i). card {j. i \<le> j \<and> exists_p fs (candidate t b s j)})"
    by simp
qed



section \<open>Facts about the file operations\<close>


declare free_candidate.simps [simp del]

lemma free_candidate_ge: "i \<le> free_candidate fs t b s i"
proof (induction fs t b s i rule: free_candidate.induct)
  case (1 fs t b s i)
  show ?case
  proof (cases "exists_p fs (candidate t b s i)")
    case True
    with "1.IH" have "i + 1 \<le> free_candidate fs t b s (i + 1)" by simp
    with True show ?thesis by (subst free_candidate.simps) simp
  next
    case False
    then show ?thesis by (subst free_candidate.simps) simp
  qed
qed

lemma free_candidate_free: "\<not> exists_p fs (candidate t b s (free_candidate fs t b s i))"
proof (induction fs t b s i rule: free_candidate.induct)
  case (1 fs t b s i)
  show ?case
  proof (cases "exists_p fs (candidate t b s i)")
    case True
    with "1.IH" show ?thesis by (subst free_candidate.simps) simp
  next
    case False
    then show ?thesis by (subst free_candidate.simps) simp
  qed
qed

lemma chosen_dest_free: "\<not> exists_p fs (chosen_dest fs v t)"
  by (simp add: chosen_dest_def Let_def free_candidate_free)

lemma os_rename_cases:
  assumes "os_rename en src dst w = (ok, w')"
  shows "(\<not> ok \<and> w' = w) \<or> (ok \<and> src = dst \<and> w' = w) \<or>
         (ok \<and> src \<noteq> dst \<and> (\<exists>n. fmlookup (files w) src = Some n \<and>
            w' = emit (Rename src dst) (w\<lparr>files := fmdrop src (fmupd dst n (files w))\<rparr>)))"
  using assms by (auto simp: os_rename_def split: option.splits if_splits)

lemma shutil_move_fresh:
  "\<not> exists_p (files w) dst \<Longrightarrow> shutil_move en src dst w = os_rename en src dst w"
  by (simp add: shutil_move_def exists_p_def)

lemma files_emit [simp]: "files (emit e w) = files w"
  by (simp add: emit_def)

lemma events_emit [simp]: "events (emit e w) = events w @ [e]"
  by (simp add: emit_def)

lemma stdin_emit [simp]: "stdin (emit e w) = stdin w"
  by (simp add: emit_def)

lemma os_rename_events:
  "\<exists>xs. events (snd (os_rename en s d w)) = events w @ xs \<and> (\<forall>e\<in>set xs. \<not> is_exec e)"
  by (auto simp: os_rename_def is_exec_def split: option.splits)

lemma move_output_events:
  "\<exists>xs. events (move_output en st t w ext) = events w @ xs \<and> (\<forall>e\<in>set xs. \<not> is_exec e)"
  using os_rename_events [of en "cwd en @ [st @ ext]" "t @ [name_of (cwd en @ [st @ ext])]" w]
  by (auto simp: move_output_def Let_def)

lemma foldl_move_output_events:
  "\<exists>xs. events (foldl (move_output en st t) w exts) = events w @ xs \<and> (\<forall>e\<in>set xs. \<not> is_exec e)"
proof (induction exts arbitrary: w)
  case Nil
  show ?case by simp
next
  case (Cons ext exts)
  obtain xs where xs: "events (move_output en st t w ext) = events w @ xs" "\<forall>e\<in>set xs. \<not> is_exec e"
    using move_output_events by blast
  obtain ys where ys: "events (foldl (move_output en st t) (move_output en st t w ext) exts)
      = events (move_output en st t w ext) @ ys" "\<forall>e\<in>set ys. \<not> is_exec e"
    using Cons.IH by blast
  from xs ys have "events (foldl (move_output en st t) w (ext # exts)) = events w @ (xs @ ys)"
    by simp
  moreover from xs ys have "\<forall>e\<in>set (xs @ ys). \<not> is_exec e" by auto
  ultimately show ?case by blast
qed

lemma move_whisper_outputs_events:
  "\<exists>xs. events (move_whisper_outputs en b t w) = events w @ xs \<and> (\<forall>e\<in>set xs. \<not> is_exec e)"
  unfolding move_whisper_outputs_def by (rule foldl_move_output_events)

lemma remove_wav_events:
  "\<exists>xs. events (remove_wav en c p w) = events w @ xs \<and> (\<forall>e\<in>set xs. \<not> is_exec e)"
  by (auto simp: remove_wav_def unlink_def is_exec_def)

lemma run_cmd_streamed_eq:
  "run_cmd_streamed en cmd w =
     ((if fst (exec en cmd (files w)) \<noteq> 0 then Inl (RuntimeError cmd (fst (exec en cmd (files w))))
       else Inr ()),
      emit (Exec cmd) (w\<lparr>files := snd (exec en cmd (files w))\<rparr>))"
  by (simp add: run_cmd_streamed_def Let_def split: prod.splits)

text \<open>The bypass: an existing subtitle file with skip enabled or overwrite disabled.\<close>

lemma process_video_bypass:
  assumes "exists_p (files w) (out_dir @ [stem_of v @ ''.srt''])" and "skip \<or> \<not> overwrite"
  shows "process_video en v model language translate clean overwrite skip out_dir w =
     (Inr \<lparr>video = v, wav = out_dir @ [stem_of v @ ''.wav''], srt = out_dir @ [stem_of v @ ''.srt''],
            detected_language = find_detected_language (files w) (out_dir @ [stem_of v]),
            whisper_succeeded = True\<rparr>, w)"
  using assms by (auto simp: process_video_def Let_def)

text \<open>The full run, when the extraction fails and when it succeeds.\<close>

lemma process_video_extract_fails:
  assumes "\<not> (exists_p (files w) (out_dir @ [stem_of v @ ''.srt'']) \<and> (skip \<or> \<not> overwrite))"
    and "fst (exec en (ffmpeg_cmd v (out_dir @ [stem_of v @ ''.wav''])) (files w)) \<noteq> 0"
  shows "process_video en v model language translate clean overwrite skip out_dir w =
     (Inl (RuntimeError (ffmpeg_cmd v (out_dir @ [stem_of v @ ''.wav'']))
             (fst (exec en (ffmpeg_cmd v (out_dir @ [stem_of v @ ''.wav''])) (files w)))),
      emit (Exec (ffmpeg_cmd v (out_dir @ [stem_of v @ ''.wav''])))
        (w\<lparr>files := snd (exec en (ffmpeg_cmd v (out_dir @ [stem_of v @ ''.wav''])) (files w))\<rparr>))"
  using assms by (auto simp: process_video_def Let_def extract_audio_def run_cmd_streamed_eq)

lemma process_video_runs:
  assumes "\<not> (exists_p (files w) (out_dir @ [stem_of v @ ''.srt'']) \<and> (skip \<or> \<not> overwrite))"
    and "fst (exec en (ffmpeg_cmd v (out_dir @ [stem_of v @ ''.wav''])) (files w)) = 0"
    and "w1 = emit (Exec (ffmpeg_cmd v (out_dir @ [stem_of v @ ''.wav''])))
        (w\<lparr>files := snd (exec en (ffmpeg_cmd v (out_dir @ [stem_of v @ ''.wav''])) (files w))\<rparr>)"
    and "w2 = emit (Exec (whisper_cmd (out_dir @ [stem_of v @ ''.wav'']) model language translate))
        (w1\<lparr>files := snd (exec en (whisper_cmd (out_dir @ [stem_of v @ ''.wav'']) model language translate) (files w1))\<rparr>)"
    and "w4 = remove_wav en clean (out_dir @ [stem_of v @ ''.wav''])
                (move_whisper_outputs en (with_suffix v []) out_dir w2)"
  shows "process_video en v model language translate clean overwrite skip out_dir w =
     (Inr \<lparr>video = v, wav = out_dir @ [stem_of v @ ''.wav''], srt = out_dir @ [stem_of v @ ''.srt''],
            detected_language = find_detected_language (files w4) (out_dir @ [stem_of v]),
            whisper_succeeded =
              (fst (exec en (whisper_cmd (out_dir @ [stem_of v @ ''.wav'']) model language translate)
                     (files w1)) = 0)\<rparr>, w4)"
  using assms
  by (auto simp: process_video_def Let_def extract_audio_def run_whisper_def run_cmd_streamed_eq)

lemma name_of_snoc [simp]: "name_of (d @ [n]) = n"
  by (simp add: name_of_def)

lemma ext_not_wav: "ext \<in> set WHISPER_EXTS \<Longrightarrow> a @ ext \<noteq> b @ ''.wav''"
proof
  assume ext: "ext \<in> set WHISPER_EXTS" and eq: "a @ ext = b @ ''.wav''"
  from eq have "rev (a @ ext) = rev (b @ ''.wav'')" by simp
  with ext show False by (auto simp: WHISPER_EXTS_def)
qed

lemma move_output_other:
  assumes "p \<noteq> cwd en @ [st @ ext]" and "p \<noteq> t @ [st @ ext]"
  shows "fmlookup (files (move_output en st t w ext)) p = fmlookup (files w) p"
  using assms by (auto simp: move_output_def Let_def os_rename_def split: option.splits)

lemma foldl_move_output_other:
  assumes "\<forall>ext\<in>set exts. p \<noteq> cwd en @ [st @ ext] \<and> p \<noteq> t @ [st @ ext]"
  shows "fmlookup (files (foldl (move_output en st t) w exts)) p = fmlookup (files w) p"
  using assms
proof (induction exts arbitrary: w)
  case Nil
  show ?case by simp
next
  case (Cons ext exts)
  then show ?case by (simp add: move_output_other)
qed

lemma move_whisper_outputs_keeps_wav:
  "fmlookup (files (move_whisper_outputs en b t w)) (d @ [s @ ''.wav''])
     = fmlookup (files w) (d @ [s @ ''.wav''])"
  unfolding move_whisper_outputs_def
proof (rule foldl_move_output_other, rule ballI)
  fix ext assume ext: "ext \<in> set WHISPER_EXTS"
  have "stem_of b @ ext \<noteq> s @ ''.wav''" using ext by (rule ext_not_wav)
  then show "d @ [s @ ''.wav''] \<noteq> cwd en @ [stem_of b @ ext]
       \<and> d @ [s @ ''.wav''] \<noteq> t @ [stem_of b @ ext]"
    by auto
qed

lemma process_video_aborts:
  assumes "\<not> (exists_p (files w) (out_dir @ [stem_of v @ ''.srt'']) \<and> (skip \<or> \<not> overwrite))"
    and "fst (extract_audio en v (out_dir @ [stem_of v @ ''.wav'']) w) = Inl e"
  shows "process_video en v model language translate clean overwrite skip out_dir w
     = (Inl e, snd (extract_audio en v (out_dir @ [stem_of v @ ''.wav'']) w))"
  using assms by (auto simp: process_video_def Let_def split: prod.splits sum.splits)

lemma process_video_completes:
  assumes "\<not> (exists_p (files w) (out_dir @ [stem_of v @ ''.srt'']) \<and> (skip \<or> \<not> overwrite))"
    and "fst (extract_audio en v (out_dir @ [stem_of v @ ''.wav'']) w) = Inr ()"
    and "w2 = snd (run_whisper en (out_dir @ [stem_of v @ ''.wav'']) model language translate
                    (snd (extract_audio en v (out_dir @ [stem_of v @ ''.wav'']) w)))"
    and "w4 = remove_wav en clean (out_dir @ [stem_of v @ ''.wav''])
                (move_whisper_outputs en (with_suffix v []) out_dir w2)"
  shows "process_video en v model language translate clean overwrite skip out_dir w =
     (Inr \<lparr>video = v, wav = out_dir @ [stem_of v @ ''.wav''], srt = out_dir @ [stem_of v @ ''.srt''],
            detected_language = find_detected_language (files w4) (out_dir @ [stem_of v]),
            whisper_succeeded =
              (fst (run_whisper en (out_dir @ [stem_of v @ ''.wav'']) model language translate
                     (snd (extract_audio en v (out_dir @ [stem_of v @ ''.wav'']) w))) = Inr ())\<rparr>,
      w4)"
  using assms by (auto simp: process_video_def Let_def split: prod.splits sum.splits)

lemma remove_wav_removes:
  assumes "\<not> unlink_refused en (files w) p"
  shows "\<not> exists_p (files (remove_wav en True p w)) p"
  using assms by (auto simp: remove_wav_def unlink_def exists_p_def)

lemma remove_wav_keeps [simp]: "remove_wav en False p w = w"
  by (simp add: remove_wav_def)

lemma process_video_wav_after:
  fixes en v model language translate clean overwrite skip out_dir w
  defines "wav_path \<equiv> out_dir @ [stem_of v @ ''.wav'']"
  defines "w2 \<equiv> snd (run_whisper en wav_path model language translate
                       (snd (extract_audio en v wav_path w)))"
  defines "w3 \<equiv> move_whisper_outputs en (with_suffix v []) out_dir w2"
  assumes nb: "\<not> (exists_p (files w) (out_dir @ [stem_of v @ ''.srt'']) \<and> (skip \<or> \<not> overwrite))"
    and ex: "fst (extract_audio en v wav_path w) = Inr ()"
  shows "exists_p (files (snd (process_video en v model language translate clean overwrite skip
                                 out_dir w))) wav_path
         = (exists_p (files w2) wav_path \<and> \<not> (clean \<and> \<not> unlink_refused en (files w3) wav_path))"
proof -
  have pv: "snd (process_video en v model language translate clean overwrite skip out_dir w)
              = remove_wav en clean wav_path w3"
    using process_video_completes [OF nb ex [unfolded wav_path_def] refl refl]
    by (simp add: w3_def w2_def wav_path_def)
  have keep: "exists_p (files w3) wav_path = exists_p (files w2) wav_path"
    by (simp add: w3_def wav_path_def exists_p_def move_whisper_outputs_keeps_wav)
  show ?thesis
    unfolding pv using keep
    by (auto simp: remove_wav_def unlink_def exists_p_def)
qed

section \<open>Facts about the prompts and \<open>main\<close>\<close>



lemma yes_no_empty_line:
  "stdin w = [] # ls \<Longrightarrow> yes_no prompt dflt w = (Inr dflt, emit (Prompt prompt) (w\<lparr>stdin := ls\<rparr>))"
  by (subst yes_no.simps) (simp add: input_def strip_def lower_def)

lemma yes_no_eof:
  "stdin w = [] \<Longrightarrow> yes_no prompt dflt w = (Inl EOFError, emit (Prompt prompt) w)"
  by (subst yes_no.simps) (simp add: input_def)

lemma ask_choice_eof:
  "stdin w = [] \<Longrightarrow> ask_choice prompt options dflt w = (Inl EOFError, emit (Prompt prompt) w)"
  by (subst ask_choice.simps) (simp add: input_def)

lemma mkdir_demo:
  "mkdir_parents [''work'', ''demo''] ready_world
     = (Inr (), emit (Mkdir [''work'', ''demo''])
                  (ready_world\<lparr>files := fmupd [''work'', ''demo''] Dir (files ready_world)\<rparr>))"
  by (simp add: mkdir_parents_def ready_world_def upt_rec emit_def)



section \<open>The sample runs, evaluated\<close>

lemma crowded_dest:
  "chosen_dest (files crowded_world) [''work'', ''demo.mp4''] [''work'', ''demo'']
     = [''work'', ''demo'', ''demo_2.mp4'']"
  by (simp add: chosen_dest_def crowded_world_def exists_p_def name_of_def stem_of_def
        suffix_of_def stem_str_def suffix_str_def rfind_def candidate_def
        free_candidate.simps str_nat.simps digit_char_def)

lemma crowded_move:
  "move_video_into_dir demo_env [''work'', ''demo.mp4''] [''work'', ''demo''] crowded_world
     = ([''work'', ''demo'', ''demo_2.mp4''],
        \<lparr>files = fmdrop [''work'', ''demo.mp4'']
                   (fmupd [''work'', ''demo'', ''demo_2.mp4''] (File (Raw ''new'')) (files crowded_world)),
         events = [Rename [''work'', ''demo.mp4''] [''work'', ''demo'', ''demo_2.mp4'']],
         stdin = []\<rparr>)"
  unfolding move_video_into_dir_def crowded_dest
  by (simp add: shutil_move_def os_rename_def exists_p_def demo_env_def emit_def
        crowded_world_def Let_def)

lemma stem_demo [simp]: "stem_of [''work'', ''demo.mp4''] = ''demo''"
  by (simp add: stem_of_def stem_str_def name_of_def rfind_def)

lemma rerun_has_srt:
  "exists_p (files rerun_world) ([''work'', ''demo''] @ [stem_of [''work'', ''demo.mp4''] @ ''.srt''])"
  by (simp add: rerun_world_def exists_p_def)

lemma fresh_has_no_srt:
  "\<not> exists_p (files fresh_world) ([''work'', ''demo''] @ [stem_of [''work'', ''demo.mp4''] @ ''.srt''])"
  by (simp add: fresh_world_def exists_p_def)

lemma studio_ffmpeg_ok:
  "fst (exec studio_env (ffmpeg_cmd [''work'', ''demo.mp4'']
          ([''work'', ''demo''] @ [stem_of [''work'', ''demo.mp4''] @ ''.wav''])) (files rerun_world)) = 0"
  by (simp add: studio_env_def ffmpeg_cmd_def)

lemma locked_extracts:
  "fst (extract_audio locked_env [''work'', ''demo.mp4'']
          ([''work'', ''demo''] @ [stem_of [''work'', ''demo.mp4''] @ ''.wav'']) fresh_world) = Inr ()"
  by (simp add: extract_audio_def run_cmd_streamed_eq locked_env_def studio_env_def ffmpeg_cmd_def)

lemma locked_wav_written:
  "exists_p (files (snd (run_whisper locked_env
       ([''work'', ''demo''] @ [stem_of [''work'', ''demo.mp4''] @ ''.wav'']) ''small'' None False
       (snd (extract_audio locked_env [''work'', ''demo.mp4'']
          ([''work'', ''demo''] @ [stem_of [''work'', ''demo.mp4''] @ ''.wav'']) fresh_world)))))
     ([''work'', ''demo''] @ [stem_of [''work'', ''demo.mp4''] @ ''.wav''])"
  by (simp add: extract_audio_def run_whisper_def run_cmd_streamed_eq locked_env_def studio_env_def
        ffmpeg_cmd_def whisper_cmd_def exists_p_def)

lemma studio_extracts:
  "fst (extract_audio studio_env [''work'', ''demo.mp4'']
          ([''work'', ''demo''] @ [stem_of [''work'', ''demo.mp4''] @ ''.wav'']) fresh_world) = Inr ()"
  by (simp add: extract_audio_def run_cmd_streamed_eq studio_env_def ffmpeg_cmd_def)

lemma studio_wav_written:
  "exists_p (files (snd (run_whisper studio_env
       ([''work'', ''demo''] @ [stem_of [''work'', ''demo.mp4''] @ ''.wav'']) ''small'' None False
       (snd (extract_audio studio_env [''work'', ''demo.mp4'']
          ([''work'', ''demo''] @ [stem_of [''work'', ''demo.mp4''] @ ''.wav'']) fresh_world)))))
     ([''work'', ''demo''] @ [stem_of [''work'', ''demo.mp4''] @ ''.wav''])"
  by (simp add: extract_audio_def run_whisper_def run_cmd_streamed_eq studio_env_def
        ffmpeg_cmd_def whisper_cmd_def exists_p_def)


lemma stem_dotted: "stem_of [''work'', ''my.video.mp4''] = ''my.video''"
  by (simp add: stem_of_def stem_str_def name_of_def rfind_def)

lemma json_path_dotted:
  "with_suffix [''work'', ''my.video'', ''my.video''] ''.json'' = [''work'', ''my.video'', ''my.json'']"
  by (simp add: with_suffix_def suffix_str_def name_of_def rfind_def parent_of_def)

lemma ready_has_video: "exists_p (files ready_world) [''work'', ''demo.mp4'']"
  by (simp add: ready_world_def exists_p_def)

lemma ready_stdin: "stdin ready_world = [[]]"
  by (simp add: ready_world_def)

lemma ready_events: "events ready_world = []"
  by (simp add: ready_world_def)

lemma prepare_demo:
  assumes "cwd en = [''work'']" and "\<not> isatty en"
  shows "prepare en demo_args ready_world
     = (if which en ''ffmpeg'' \<and> which en ''whisper''
        then Inr \<lparr>cfg_model = ''small'', cfg_language = Some ''fr'',
                  cfg_out_dir = [''work'', ''demo''], cfg_clean_wav = True, cfg_overwrite = True,
                  cfg_skip_if_exists = True, cfg_translate_to_en = False\<rparr>
        else Inl (SystemExit 1),
        \<lparr>files = fmupd [''work'', ''demo''] Dir (files ready_world),
         events = [Mkdir [''work'', ''demo''], Prompt ''Start processing?''],
         stdin = []\<rparr>)"
  using assms
  by (simp add: prepare_def and_then_def ret_def throw_def demo_args_def ready_has_video
        mkdir_demo yes_no_empty_line ready_stdin ready_events check_tools_def emit_def)

lemma main_no_ffmpeg:
  "main no_ffmpeg_env demo_args ready_world
     = (1, \<lparr>files = fmupd [''work'', ''demo''] Dir (files ready_world),
            events = [Mkdir [''work'', ''demo''], Prompt ''Start processing?''],
            stdin = []\<rparr>)"
proof -
  have "prepare no_ffmpeg_env demo_args ready_world
     = (Inl (SystemExit 1),
        \<lparr>files = fmupd [''work'', ''demo''] Dir (files ready_world),
         events = [Mkdir [''work'', ''demo''], Prompt ''Start processing?''],
         stdin = []\<rparr>)"
    by (subst prepare_demo) (simp_all add: no_ffmpeg_env_def studio_env_def)
  then show ?thesis
    by (simp add: main_def and_then_def setup_logger_def demo_args_def exit_code_def)
qed

lemma main_bare:
  "main studio_env bare_args idle_world
     = (1, idle_world\<lparr>events := [Prompt ''Choose Whisper model size:'']\<rparr>)"
  by (simp add: main_def and_then_def setup_logger_def bare_args_def exit_code_def prepare_def
        ret_def throw_def idle_world_def ready_has_video ask_choice_eof emit_def ready_events)





lemma piped_has_video: "exists_p (files piped_world) [''work'', ''demo.mp4'']"
  by (simp add: piped_world_def ready_world_def exists_p_def)

lemma strip_tiny: "strip ''tiny'' = ''tiny''" and strip_de: "strip ''de'' = ''de''"
  by (simp_all add: strip_def is_space_def)

lemma ask_model_tiny:
  "stdin w = ''tiny'' # ls \<Longrightarrow>
     ask_choice prompt MODELS dflt w = (Inr ''tiny'', emit (Prompt prompt) (w\<lparr>stdin := ls\<rparr>))"
  by (subst ask_choice.simps)
     (simp add: input_def strip_tiny isdigit_def is_digit_def MODELS_def)

lemma prepare_piped:
  "prepare studio_env bare_args piped_world
     = (Inr \<lparr>cfg_model = ''tiny'', cfg_language = Some ''de'',
             cfg_out_dir = [''work'', ''demo''], cfg_clean_wav = True, cfg_overwrite = True,
             cfg_skip_if_exists = True, cfg_translate_to_en = False\<rparr>,
        \<lparr>files = fmupd [''work'', ''demo''] Dir (files ready_world),
         events = [Prompt ''Choose Whisper model size:'',
                   Prompt ''Source audio language (e.g., en, fr, es) [auto-detect]: '',
                   Mkdir [''work'', ''demo''], Prompt ''Start processing?''],
         stdin = []\<rparr>)"
  by (simp add: prepare_def and_then_def ret_def throw_def Let_def bare_args_def exists_p_def
        ask_model_tiny piped_world_def ready_world_def input_def strip_de emit_def
        studio_env_def mkdir_parents_def upt_rec yes_no_empty_line check_tools_def)

section \<open>The claims\<close>

text \<open>
  C1 does not hold for a video whose stem contains a dot. The subtitle file
  \<open>my.video.srt\<close> and the companion \<open>my.video.json\<close> (language \<open>fr\<close>) are in the output
  folder and skip-if-exists is enabled: nothing is executed, but the language returned
  is \<^verbatim>\<open>None\<close>, because the lookup goes through \<^verbatim>\<open>with_suffix\<close> and reads
  \<open>my.json\<close>, while the wav and srt paths are built from the whole stem.
\<close>

theorem dotted_stem_loses_language:
  "exists_p (files dotted_world) [''work'', ''my.video'', ''my.video.srt'']
   \<and> fmlookup (files dotted_world) [''work'', ''my.video'', ''my.video.json'']
       = Some (File (Doc (JObj [(''language'', JStr ''fr'')])))
   \<and> process_video demo_env [''work'', ''my.video.mp4''] ''small'' None False True True True
         [''work'', ''my.video''] dotted_world
       = (Inr \<lparr>video = [''work'', ''my.video.mp4''], wav = [''work'', ''my.video'', ''my.video.wav''],
               srt = [''work'', ''my.video'', ''my.video.srt''], detected_language = None,
               whisper_succeeded = True\<rparr>, dotted_world)"
  by (simp add: process_video_def stem_dotted json_path_dotted find_detected_language_def
        exists_p_def dotted_world_def Let_def)

text \<open>When the stem has no dot inside, the bypass does read the companion file.\<close>

lemma bypass_reads_companion_json:
  assumes "exists_p (files w) (out_dir @ [stem_of v @ ''.srt''])" and "skip \<or> \<not> overwrite"
    and "suffix_str (stem_of v) = []"
    and "fmlookup (files w) (out_dir @ [stem_of v @ ''.json''])
           = Some (File (Doc (JObj [(''language'', JStr l)])))"
    and "l \<noteq> []"
  shows "\<exists>r. process_video en v model language translate clean overwrite skip out_dir w = (Inr r, w)
            \<and> detected_language r = Some (JStr l)"
proof -
  have "with_suffix (out_dir @ [stem_of v]) ''.json'' = out_dir @ [stem_of v @ ''.json'']"
    using assms(3) by (simp add: with_suffix_def parent_of_def Let_def)
  with assms(4,5) have "find_detected_language (files w) (out_dir @ [stem_of v]) = Some (JStr l)"
    by (simp add: find_detected_language_def exists_p_def read_language_def dict_get_def py_or_def)
  with process_video_bypass [OF assms(1,2)] show ?thesis by simp
qed

text \<open>
  C2 does not hold: with ffmpeg missing, the run exits with status 1, but only after
  it has created the output folder. The tool check comes after the folder is made
  (and after the confirmation prompt).
\<close>

theorem missing_tool_after_mkdir:
  "\<not> which no_ffmpeg_env ''ffmpeg''
   \<and> \<not> exists_p (files ready_world) [''work'', ''demo'']
   \<and> main no_ffmpeg_env demo_args ready_world
     = (1, \<lparr>files = fmupd [''work'', ''demo''] Dir (files ready_world),
            events = [Mkdir [''work'', ''demo''], Prompt ''Start processing?''],
            stdin = []\<rparr>)
   \<and> list_ex is_modification (events (snd (main no_ffmpeg_env demo_args ready_world)))"
  by (simp add: main_no_ffmpeg is_modification_def)
     (simp add: no_ffmpeg_env_def ready_world_def exists_p_def)



text \<open>
  C4. Moving the source video into the output directory never overwrites a file that
  was already there. Every entry of the file system other than the video itself is
  left as it was; the destination chosen does not exist beforehand; when an entry
  named like the video is already in the directory, the destination is the stem, an
  underscore, a counter that is at least 1, and the extension; and the call either
  returns that destination, which then holds what the video held, or (the move was
  refused) returns the original path and changes nothing.
\<close>

theorem move_video_never_overwrites:
  assumes mv: "move_video_into_dir en v target_dir w = (res, w')"
  shows "(\<forall>p. exists_p (files w) p \<and> p \<noteq> v \<longrightarrow> fmlookup (files w') p = fmlookup (files w) p)
       \<and> \<not> exists_p (files w) (chosen_dest (files w) v target_dir)
       \<and> (exists_p (files w) (target_dir @ [name_of v]) \<longrightarrow>
            (\<exists>i\<ge>1. chosen_dest (files w) v target_dir
                      = target_dir @ [stem_of v @ ''_'' @ str_nat i @ suffix_of v]))
       \<and> ((res = chosen_dest (files w) v target_dir
             \<and> fmlookup (files w') res = fmlookup (files w) v)
           \<or> (res = v \<and> w' = w))"
proof -
  let ?d = "chosen_dest (files w) v target_dir"
  have fresh: "\<not> exists_p (files w) ?d" by (rule chosen_dest_free)
  obtain ok w1 where rn: "os_rename en v ?d w = (ok, w1)" by (cases "os_rename en v ?d w")
  have sm: "shutil_move en v ?d w = (ok, w1)" using fresh rn by (simp add: shutil_move_fresh)
  from mv sm have res: "res = (if ok then ?d else v)" and w': "w' = w1"
    by (auto simp: move_video_into_dir_def Let_def split: if_splits bool.splits)
  from os_rename_cases [OF rn]
  have keep: "\<forall>p. exists_p (files w) p \<and> p \<noteq> v \<longrightarrow> fmlookup (files w1) p = fmlookup (files w) p"
    using fresh by (auto simp: exists_p_def)
  have named: "exists_p (files w) (target_dir @ [name_of v]) \<longrightarrow>
            (\<exists>i\<ge>1. ?d = target_dir @ [stem_of v @ ''_'' @ str_nat i @ suffix_of v])"
  proof
    assume ex: "exists_p (files w) (target_dir @ [name_of v])"
    let ?i = "free_candidate (files w) target_dir (stem_of v) (suffix_of v) 1"
    have "1 \<le> ?i" by (rule free_candidate_ge)
    moreover have "?d = target_dir @ [stem_of v @ ''_'' @ str_nat ?i @ suffix_of v]"
      using ex by (simp add: chosen_dest_def candidate_def)
    ultimately show "\<exists>i\<ge>1. ?d = target_dir @ [stem_of v @ ''_'' @ str_nat i @ suffix_of v]"
      by blast
  qed
  have last: "(res = ?d \<and> fmlookup (files w') res = fmlookup (files w) v) \<or> (res = v \<and> w' = w)"
    using os_rename_cases [OF rn] res w' fresh by (auto simp: exists_p_def)
  from keep fresh named last w' show ?thesis by simp
qed

theorem move_video_never_overwrites_witness:
  "move_video_into_dir demo_env [''work'', ''demo.mp4''] [''work'', ''demo''] crowded_world
     = ([''work'', ''demo'', ''demo_2.mp4''],
        \<lparr>files = fmdrop [''work'', ''demo.mp4'']
                   (fmupd [''work'', ''demo'', ''demo_2.mp4''] (File (Raw ''new'')) (files crowded_world)),
         events = [Rename [''work'', ''demo.mp4''] [''work'', ''demo'', ''demo_2.mp4'']],
         stdin = []\<rparr>)
   \<and> exists_p (files crowded_world) [''work'', ''demo'', ''demo.mp4'']
   \<and> fmlookup (fmdrop [''work'', ''demo.mp4'']
                   (fmupd [''work'', ''demo'', ''demo_2.mp4''] (File (Raw ''new'')) (files crowded_world)))
         [''work'', ''demo'', ''demo.mp4'']
       = fmlookup (files crowded_world) [''work'', ''demo'', ''demo.mp4'']"
proof -
  let ?old = "[''work'', ''demo'', ''demo.mp4'']"
  let ?w' = "\<lparr>files = fmdrop [''work'', ''demo.mp4'']
                   (fmupd [''work'', ''demo'', ''demo_2.mp4''] (File (Raw ''new'')) (files crowded_world)),
         events = [Rename [''work'', ''demo.mp4''] [''work'', ''demo'', ''demo_2.mp4'']],
         stdin = []\<rparr>"
  have e: "exists_p (files crowded_world) ?old"
    by (simp add: crowded_world_def exists_p_def)
  have "exists_p (files crowded_world) ?old \<and> ?old \<noteq> [''work'', ''demo.mp4'']
          \<longrightarrow> fmlookup (files ?w') ?old = fmlookup (files crowded_world) ?old"
    using move_video_never_overwrites [OF crowded_move] by blast
  with e have "fmlookup (files ?w') ?old = fmlookup (files crowded_world) ?old" by simp
  with e crowded_move show ?thesis by simp
qed

text \<open>
  C5, as stated, fails: with the subtitle file present, overwrite enabled and skip
  disabled, a run whose ffmpeg exits with status 1 executes ffmpeg only; whisper is
  never started.
\<close>

theorem overwrite_rerun_counterexample:
  "exists_p (files rerun_world) [''work'', ''demo'', ''demo.srt'']
   \<and> process_video demo_env [''work'', ''demo.mp4''] ''small'' None False True True False
        [''work'', ''demo''] rerun_world
     = (Inl (RuntimeError (ffmpeg_cmd [''work'', ''demo.mp4''] [''work'', ''demo'', ''demo.wav'']) 1),
        rerun_world\<lparr>events :=
          [Exec [''ffmpeg'', ''-hide_banner'', ''-loglevel'', ''error'', ''-i'', ''/work/demo.mp4'',
                 ''-ar'', ''16000'', ''-ac'', ''1'', ''-c:a'', ''pcm_s16le'',
                 ''/work/demo/demo.wav'']]\<rparr>)
   \<and> Exec (whisper_cmd [''work'', ''demo'', ''demo.wav''] ''small'' None False)
       \<notin> set (events (snd (process_video demo_env [''work'', ''demo.mp4''] ''small'' None False
                                True True False [''work'', ''demo''] rerun_world)))"
  by (simp add: process_video_def Let_def extract_audio_def run_cmd_streamed_def demo_env_def
        emit_def rerun_world_def exists_p_def ffmpeg_cmd_def whisper_cmd_def str_path_def)

text \<open>
  C5, amended. With the subtitle file present: when skip-if-exists is enabled nothing
  is executed, whatever the overwrite setting (skip takes precedence); when skip is
  disabled and overwrite enabled, ffmpeg is executed again, and when it returns 0 the
  whisper command is executed right after it and nothing else is executed; when
  ffmpeg fails nothing further happens.
\<close>

theorem overwrite_reruns_extraction:
  assumes srt: "exists_p (files w) (out_dir @ [stem_of v @ ''.srt''])"
  shows "(skip \<longrightarrow>
            events (snd (process_video en v model language translate clean overwrite skip out_dir w))
              = events w)
       \<and> (\<not> skip \<and> overwrite \<longrightarrow>
            (\<exists>rest.
               events (snd (process_video en v model language translate clean overwrite skip out_dir w))
                 = events w @ Exec (ffmpeg_cmd v (out_dir @ [stem_of v @ ''.wav''])) # rest
             \<and> (fst (exec en (ffmpeg_cmd v (out_dir @ [stem_of v @ ''.wav''])) (files w)) \<noteq> 0
                   \<longrightarrow> rest = [])
             \<and> (fst (exec en (ffmpeg_cmd v (out_dir @ [stem_of v @ ''.wav''])) (files w)) = 0
                   \<longrightarrow> (\<exists>rest'. rest = Exec (whisper_cmd (out_dir @ [stem_of v @ ''.wav''])
                                                 model language translate) # rest'
                                   \<and> (\<forall>e\<in>set rest'. \<not> is_exec e)))))"
proof (intro conjI impI)
  assume skip
  with srt show "events (snd (process_video en v model language translate clean overwrite skip out_dir w))
              = events w"
    by (simp add: process_video_bypass)
next
  assume a: "\<not> skip \<and> overwrite"
  let ?wav = "out_dir @ [stem_of v @ ''.wav'']"
  from a have nb: "\<not> (exists_p (files w) (out_dir @ [stem_of v @ ''.srt'']) \<and> (skip \<or> \<not> overwrite))"
    by simp
  show "\<exists>rest.
       events (snd (process_video en v model language translate clean overwrite skip out_dir w))
         = events w @ Exec (ffmpeg_cmd v ?wav) # rest
       \<and> (fst (exec en (ffmpeg_cmd v ?wav) (files w)) \<noteq> 0 \<longrightarrow> rest = [])
       \<and> (fst (exec en (ffmpeg_cmd v ?wav) (files w)) = 0
             \<longrightarrow> (\<exists>rest'. rest = Exec (whisper_cmd ?wav model language translate) # rest'
                             \<and> (\<forall>e\<in>set rest'. \<not> is_exec e)))"
  proof (cases "fst (exec en (ffmpeg_cmd v ?wav) (files w)) = 0")
    case False
    from process_video_extract_fails [OF nb False]
    have "events (snd (process_video en v model language translate clean overwrite skip out_dir w))
        = events w @ Exec (ffmpeg_cmd v ?wav) # []"
      by simp
    with False show ?thesis by blast
  next
    case True
    let ?w1 = "emit (Exec (ffmpeg_cmd v ?wav)) (w\<lparr>files := snd (exec en (ffmpeg_cmd v ?wav) (files w))\<rparr>)"
    let ?w2 = "emit (Exec (whisper_cmd ?wav model language translate))
          (?w1\<lparr>files := snd (exec en (whisper_cmd ?wav model language translate) (files ?w1))\<rparr>)"
    let ?w3 = "move_whisper_outputs en (with_suffix v []) out_dir ?w2"
    let ?w4 = "remove_wav en clean ?wav ?w3"
    from process_video_runs [OF nb True refl refl refl]
    have pv: "snd (process_video en v model language translate clean overwrite skip out_dir w) = ?w4"
      by simp
    obtain xs where xs: "events ?w3 = events ?w2 @ xs" "\<forall>e\<in>set xs. \<not> is_exec e"
      using move_whisper_outputs_events by blast
    obtain ys where ys: "events ?w4 = events ?w3 @ ys" "\<forall>e\<in>set ys. \<not> is_exec e"
      using remove_wav_events by blast
    have ev: "events ?w4 = events w @ Exec (ffmpeg_cmd v ?wav)
        # (Exec (whisper_cmd ?wav model language translate) # (xs @ ys))"
      using xs ys by simp
    have q: "\<forall>e\<in>set (xs @ ys). \<not> is_exec e" using xs ys by auto
    from ev pv q True show ?thesis by auto
  qed
qed

theorem overwrite_reruns_extraction_witness:
  "exists_p (files rerun_world) ([''work'', ''demo''] @ [stem_of [''work'', ''demo.mp4''] @ ''.srt''])
   \<and> fst (exec studio_env (ffmpeg_cmd [''work'', ''demo.mp4'']
          ([''work'', ''demo''] @ [stem_of [''work'', ''demo.mp4''] @ ''.wav''])) (files rerun_world)) = 0
   \<and> events (snd (process_video studio_env [''work'', ''demo.mp4''] ''small'' None False True True True
                    [''work'', ''demo''] rerun_world)) = events rerun_world
   \<and> (\<exists>rest'. events (snd (process_video studio_env [''work'', ''demo.mp4''] ''small'' None False True
                               True False [''work'', ''demo''] rerun_world))
        = events rerun_world
          @ Exec (ffmpeg_cmd [''work'', ''demo.mp4'']
                    ([''work'', ''demo''] @ [stem_of [''work'', ''demo.mp4''] @ ''.wav'']))
          # Exec (whisper_cmd ([''work'', ''demo''] @ [stem_of [''work'', ''demo.mp4''] @ ''.wav''])
                    ''small'' None False)
          # rest')"
proof -
  from overwrite_reruns_extraction [OF rerun_has_srt, where skip = True and en = studio_env
          and model = "''small''" and language = None and translate = False and clean = True
          and overwrite = True]
  have a: "events (snd (process_video studio_env [''work'', ''demo.mp4''] ''small'' None False True True
                          True [''work'', ''demo''] rerun_world)) = events rerun_world"
    by simp
  from overwrite_reruns_extraction [OF rerun_has_srt, where skip = False and en = studio_env
          and model = "''small''" and language = None and translate = False and clean = True
          and overwrite = True] studio_ffmpeg_ok
  have b: "\<exists>rest'. events (snd (process_video studio_env [''work'', ''demo.mp4''] ''small'' None False
                                  True True False [''work'', ''demo''] rerun_world))
        = events rerun_world
          @ Exec (ffmpeg_cmd [''work'', ''demo.mp4'']
                    ([''work'', ''demo''] @ [stem_of [''work'', ''demo.mp4''] @ ''.wav'']))
          # Exec (whisper_cmd ([''work'', ''demo''] @ [stem_of [''work'', ''demo.mp4''] @ ''.wav''])
                    ''small'' None False)
          # rest'"
    by auto
  from a b rerun_has_srt studio_ffmpeg_ok show ?thesis by blast
qed

text \<open>
  C6, as stated, fails: on a system that refuses the deletion, a run that completes
  with the clean flag set still has the wav file when \<open>process_video\<close> returns (the
  refusal is only logged).
\<close>

theorem cleanup_refused_counterexample:
  "\<not> exists_p (files fresh_world) [''work'', ''demo'', ''demo.srt'']
   \<and> fst (extract_audio locked_env [''work'', ''demo.mp4''] [''work'', ''demo'', ''demo.wav'']
            fresh_world) = Inr ()
   \<and> \<not> isl (fst (process_video locked_env [''work'', ''demo.mp4''] ''small'' None False True True True
                    [''work'', ''demo''] fresh_world))
   \<and> exists_p (files (snd (process_video locked_env [''work'', ''demo.mp4''] ''small'' None False True
                              True True [''work'', ''demo''] fresh_world)))
        [''work'', ''demo'', ''demo.wav'']"
proof -
  have nb: "\<not> (exists_p (files fresh_world)
                  ([''work'', ''demo''] @ [stem_of [''work'', ''demo.mp4''] @ ''.srt''])
               \<and> (True \<or> \<not> True))"
    using fresh_has_no_srt by simp
  have a: "exists_p (files (snd (process_video locked_env [''work'', ''demo.mp4''] ''small'' None False
                                   True True True [''work'', ''demo''] fresh_world)))
             ([''work'', ''demo''] @ [stem_of [''work'', ''demo.mp4''] @ ''.wav''])"
    unfolding process_video_wav_after [OF nb locked_extracts]
    using locked_wav_written by (simp add: locked_env_def)
  have b: "\<not> isl (fst (process_video locked_env [''work'', ''demo.mp4''] ''small'' None False True True
                          True [''work'', ''demo''] fresh_world))"
    using process_video_completes [OF nb locked_extracts refl refl, where model = "''small''"
            and language = None and translate = False and clean = True]
    by simp
  from a b locked_extracts fresh_has_no_srt show ?thesis by simp
qed

text \<open>
  C6, amended. For a run that is not bypassed and whose extraction returned normally:
  if the clean flag is set and the deletion of the wav file is not refused, the wav
  file does not exist when \<open>process_video\<close> returns; if the clean flag is not set, a
  wav file that is there once the two tools have run is still there when
  \<open>process_video\<close> returns.
\<close>

theorem cleanup_follows_clean_flag:
  fixes en v model language translate clean overwrite skip out_dir w
  defines "wav_path \<equiv> out_dir @ [stem_of v @ ''.wav'']"
  defines "w2 \<equiv> snd (run_whisper en wav_path model language translate
                       (snd (extract_audio en v wav_path w)))"
  defines "w3 \<equiv> move_whisper_outputs en (with_suffix v []) out_dir w2"
  defines "w' \<equiv> snd (process_video en v model language translate clean overwrite skip out_dir w)"
  assumes nb: "\<not> (exists_p (files w) (out_dir @ [stem_of v @ ''.srt'']) \<and> (skip \<or> \<not> overwrite))"
    and ex: "fst (extract_audio en v wav_path w) = Inr ()"
  shows "(clean \<and> \<not> unlink_refused en (files w3) wav_path \<longrightarrow> \<not> exists_p (files w') wav_path)
       \<and> (\<not> clean \<and> exists_p (files w2) wav_path \<longrightarrow> exists_p (files w') wav_path)"
  unfolding w'_def w3_def w2_def wav_path_def
  using process_video_wav_after [OF nb ex [unfolded wav_path_def], where model = model
          and language = language and translate = translate and clean = clean]
  by (cases clean) auto

theorem cleanup_follows_clean_flag_witness:
  "\<not> exists_p (files fresh_world) ([''work'', ''demo''] @ [stem_of [''work'', ''demo.mp4''] @ ''.srt''])
   \<and> fst (extract_audio studio_env [''work'', ''demo.mp4'']
          ([''work'', ''demo''] @ [stem_of [''work'', ''demo.mp4''] @ ''.wav'']) fresh_world) = Inr ()
   \<and> \<not> exists_p (files (snd (process_video studio_env [''work'', ''demo.mp4''] ''small'' None False
                                True True True [''work'', ''demo''] fresh_world)))
         ([''work'', ''demo''] @ [stem_of [''work'', ''demo.mp4''] @ ''.wav''])
   \<and> exists_p (files (snd (process_video studio_env [''work'', ''demo.mp4''] ''small'' None False
                              False True True [''work'', ''demo''] fresh_world)))
         ([''work'', ''demo''] @ [stem_of [''work'', ''demo.mp4''] @ ''.wav''])"
proof -
  have nb: "\<not> (exists_p (files fresh_world)
                  ([''work'', ''demo''] @ [stem_of [''work'', ''demo.mp4''] @ ''.srt''])
               \<and> (True \<or> \<not> True))"
    using fresh_has_no_srt by simp
  have free: "\<And>fs p. \<not> unlink_refused studio_env fs p" by (simp add: studio_env_def)
  from cleanup_follows_clean_flag [OF nb studio_extracts, where model = "''small''"
         and language = None and translate = False and clean = True] free
  have a: "\<not> exists_p (files (snd (process_video studio_env [''work'', ''demo.mp4''] ''small'' None
                                      False True True True [''work'', ''demo''] fresh_world)))
         ([''work'', ''demo''] @ [stem_of [''work'', ''demo.mp4''] @ ''.wav''])"
    by simp
  from cleanup_follows_clean_flag [OF nb studio_extracts, where model = "''small''"
         and language = None and translate = False and clean = False] studio_wav_written
  have b: "exists_p (files (snd (process_video studio_env [''work'', ''demo.mp4''] ''small'' None
                                      False False True True [''work'', ''demo''] fresh_world)))
         ([''work'', ''demo''] @ [stem_of [''work'', ''demo.mp4''] @ ''.wav''])"
    by simp
  from a b fresh_has_no_srt studio_extracts show ?thesis by simp
qed

text \<open>
  C7. A run that is not bypassed starts by executing ffmpeg with exactly the fixed
  arguments (banner hidden, log level error, the video as input, 16000 Hz, one channel,
  pcm\_s16le, the wav path as output). Whatever else is executed in that call comes
  after it in the record of the run, is the whisper command, and is executed only
  when ffmpeg has returned 0.
\<close>

theorem extraction_precedes_transcription:
  assumes "\<not> (exists_p (files w) (out_dir @ [stem_of v @ ''.srt'']) \<and> (skip \<or> \<not> overwrite))"
  shows "\<exists>rest.
           events (snd (process_video en v model language translate clean overwrite skip out_dir w))
             = events w
               @ Exec [''ffmpeg'', ''-hide_banner'', ''-loglevel'', ''error'',
                       ''-i'', str_path v, ''-ar'', ''16000'', ''-ac'', ''1'',
                       ''-c:a'', ''pcm_s16le'', str_path (out_dir @ [stem_of v @ ''.wav''])]
               # rest
         \<and> (\<forall>e\<in>set rest. is_exec e \<longrightarrow>
               e = Exec (whisper_cmd (out_dir @ [stem_of v @ ''.wav'']) model language translate)
               \<and> fst (exec en (ffmpeg_cmd v (out_dir @ [stem_of v @ ''.wav''])) (files w)) = 0)"
proof (cases "fst (exec en (ffmpeg_cmd v (out_dir @ [stem_of v @ ''.wav''])) (files w)) = 0")
  case False
  from process_video_extract_fails [OF assms False]
  have "events (snd (process_video en v model language translate clean overwrite skip out_dir w))
      = events w @ Exec (ffmpeg_cmd v (out_dir @ [stem_of v @ ''.wav''])) # []"
    by simp
  then show ?thesis unfolding ffmpeg_cmd_def by (intro exI [of _ "[]"]) simp
next
  case True
  let ?wav = "out_dir @ [stem_of v @ ''.wav'']"
  let ?w1 = "emit (Exec (ffmpeg_cmd v ?wav)) (w\<lparr>files := snd (exec en (ffmpeg_cmd v ?wav) (files w))\<rparr>)"
  let ?w2 = "emit (Exec (whisper_cmd ?wav model language translate))
        (?w1\<lparr>files := snd (exec en (whisper_cmd ?wav model language translate) (files ?w1))\<rparr>)"
  let ?w3 = "move_whisper_outputs en (with_suffix v []) out_dir ?w2"
  let ?w4 = "remove_wav en clean ?wav ?w3"
  from process_video_runs [OF assms True refl refl refl]
  have pv: "snd (process_video en v model language translate clean overwrite skip out_dir w) = ?w4"
    by simp
  obtain xs where xs: "events ?w3 = events ?w2 @ xs" "\<forall>e\<in>set xs. \<not> is_exec e"
    using move_whisper_outputs_events by blast
  obtain ys where ys: "events ?w4 = events ?w3 @ ys" "\<forall>e\<in>set ys. \<not> is_exec e"
    using remove_wav_events by blast
  have ev: "events ?w4 = events w @ Exec (ffmpeg_cmd v ?wav)
      # (Exec (whisper_cmd ?wav model language translate) # xs @ ys)"
    using xs ys by simp
  have "\<forall>e\<in>set (Exec (whisper_cmd ?wav model language translate) # xs @ ys). is_exec e \<longrightarrow>
               e = Exec (whisper_cmd ?wav model language translate)
               \<and> fst (exec en (ffmpeg_cmd v ?wav) (files w)) = 0"
    using xs ys True by auto
  with ev pv show ?thesis unfolding ffmpeg_cmd_def by (intro exI) (rule conjI, simp, assumption)
qed

theorem extraction_precedes_transcription_witness:
  "\<not> exists_p (files fresh_world) ([''work'', ''demo''] @ [stem_of [''work'', ''demo.mp4''] @ ''.srt''])
   \<and> (\<exists>rest. events (snd (process_video demo_env [''work'', ''demo.mp4''] ''small'' None False True
                              True True [''work'', ''demo''] fresh_world))
        = events fresh_world
          @ Exec [''ffmpeg'', ''-hide_banner'', ''-loglevel'', ''error'',
                  ''-i'', str_path [''work'', ''demo.mp4''], ''-ar'', ''16000'', ''-ac'', ''1'',
                  ''-c:a'', ''pcm_s16le'',
                  str_path ([''work'', ''demo''] @ [stem_of [''work'', ''demo.mp4''] @ ''.wav''])]
          # rest)"
proof -
  have nb: "\<not> (exists_p (files fresh_world)
                  ([''work'', ''demo''] @ [stem_of [''work'', ''demo.mp4''] @ ''.srt''])
               \<and> (True \<or> \<not> True))"
    using fresh_has_no_srt by simp
  from extraction_precedes_transcription [OF nb, where en = demo_env and model = "''small''"
         and language = None and translate = False and clean = True]
  show ?thesis using fresh_has_no_srt by blast
qed

text \<open>
  C8 does not hold for the model size and the source language: with stdin not a
  terminal and neither flag given, the run prompts for the model. On an empty stdin
  it then ends with status 1 (\<^verbatim>\<open>EOFError\<close>); on piped input the model and the language
  are taken from the answers, not from the defaults.
\<close>

theorem noninteractive_run_prompts:
  "\<not> isatty studio_env \<and> arg_model bare_args = None \<and> arg_language bare_args = None
   \<and> main studio_env bare_args idle_world
       = (1, idle_world\<lparr>events := [Prompt ''Choose Whisper model size:'']\<rparr>)
   \<and> prepare studio_env bare_args piped_world
       = (Inr \<lparr>cfg_model = ''tiny'', cfg_language = Some ''de'',
             cfg_out_dir = [''work'', ''demo''], cfg_clean_wav = True, cfg_overwrite = True,
             cfg_skip_if_exists = True, cfg_translate_to_en = False\<rparr>,
        \<lparr>files = fmupd [''work'', ''demo''] Dir (files ready_world),
         events = [Prompt ''Choose Whisper model size:'',
                   Prompt ''Source audio language (e.g., en, fr, es) [auto-detect]: '',
                   Mkdir [''work'', ''demo''], Prompt ''Start processing?''],
         stdin = []\<rparr>)
   \<and> list_ex is_prompt (events (snd (main studio_env bare_args idle_world)))"
  by (simp add: main_bare prepare_piped is_prompt_def) (simp add: studio_env_def bare_args_def)



text \<open>
  C10. When the subtitle file already exists and the run is bypassed (skip-if-exists
  enabled, or overwrite disabled), \<open>process_video\<close> returns a result whose
  \<open>whisper_succeeded\<close> is true and leaves the world as it was: nothing was executed.
\<close>

theorem bypass_reports_whisper_success:
  assumes "exists_p (files w) (out_dir @ [stem_of v @ ''.srt''])" and "skip \<or> \<not> overwrite"
  shows "\<exists>r. process_video en v model language translate clean overwrite skip out_dir w = (Inr r, w)
            \<and> whisper_succeeded r"
  using process_video_bypass [OF assms] by simp

theorem bypass_reports_whisper_success_witness:
  "exists_p (files rerun_world) ([''work'', ''demo''] @ [stem_of [''work'', ''demo.mp4''] @ ''.srt''])
   \<and> (\<exists>r. process_video demo_env [''work'', ''demo.mp4''] ''small'' None False True False False
               [''work'', ''demo''] rerun_world = (Inr r, rerun_world)
            \<and> whisper_succeeded r)"
  using bypass_reports_whisper_success [OF rerun_has_srt, where skip = False and overwrite = False
          and en = demo_env and model = "''small''" and language = None and translate = False
          and clean = True] rerun_has_srt
  by simp

end
